theory Spec2Isabelle
  imports Complex_Main "HOL-Library.Word"
begin

unbundle bit_operations_syntax

section \<open>Python values used by googlemaps/common.py\<close>

text \<open>
  The module runs on Python 2 and on Python 3 (it imports \<open>urlencode\<close> from either
  place). The two runtimes differ where the module compares a \<open>str\<close> with an \<open>int\<close>,
  so the runtime is a parameter of the model.
\<close>

datatype runtime = Python2 | Python3

datatype ApiError = ApiError (status: string) (message: "string option")

datatype error =
    ValueError string
  | NotImplementedError string
  | TypeError
  | IndexError
  | OverflowError
  | UnicodeDecodeError
  | Base64Error
  | JSONDecodeError
  | ConnectionError
  | HTTPError int
  | ApiException ApiError

text \<open>Truthiness of an optional string and of an optional integer: \<open>None\<close>, the empty
  string and zero are false.\<close>

fun truthy_str :: "string option \<Rightarrow> bool" where
  "truthy_str None = False"
| "truthy_str (Some s) = (s \<noteq> [])"

fun truthy_int :: "int option \<Rightarrow> bool" where
  "truthy_int None = False"
| "truthy_int (Some n) = (n \<noteq> 0)"

definition startswith :: "string \<Rightarrow> string \<Rightarrow> bool" where
  "startswith s p = (take (length p) s = p)"

text \<open>\<open>str.split(".")\<close>: the pieces between the dots, at least one piece.\<close>

fun split_dot :: "string \<Rightarrow> string list" where
  "split_dot [] = [[]]"
| "split_dot (c # cs) =
     (if c = CHR ''.'' then [] # split_dot cs
      else (case split_dot cs of
              [] \<Rightarrow> [[c]]
            | w # ws \<Rightarrow> (c # w) # ws))"

text \<open>List indexing raises \<open>IndexError\<close> out of range.\<close>

fun index :: "'a list \<Rightarrow> nat \<Rightarrow> error + 'a" where
  "index [] i = Inl IndexError"
| "index (x # xs) 0 = Inr x"
| "index (x # xs) (Suc i) = index xs i"

text \<open>
  \<open>s < n\<close> for a \<open>str\<close> \<open>s\<close> and an \<open>int\<close> \<open>n\<close>: CPython 2 orders every number
  before every string, so the answer is \<open>False\<close>; Python 3 raises \<open>TypeError\<close>.
  \<open>s == n\<close> is \<open>False\<close> on both.
\<close>

definition str_lt_int :: "runtime \<Rightarrow> string \<Rightarrow> int \<Rightarrow> error + bool" where
  "str_lt_int rt s n = (case rt of Python2 \<Rightarrow> Inr False | Python3 \<Rightarrow> Inl TypeError)"

definition str_eq_int :: "string \<Rightarrow> int \<Rightarrow> bool" where
  "str_eq_int s n = False"

section \<open>Context\<close>

datatype timeout_value = NoTimeout | Single int | ConnectRead int int

record Context =
  key :: "string option"
  timeout :: timeout_value
  client_id :: "string option"
  client_secret :: "string option"
  retry_timeout :: int

text \<open>The keyword arguments of \<open>Context.__init__\<close>; \<open>retry_timeout\<close> is in seconds.\<close>

record init_args =
  arg_key :: "string option"
  arg_client_id :: "string option"
  arg_client_secret :: "string option"
  arg_timeout :: "int option"
  arg_connect_timeout :: "int option"
  arg_read_timeout :: "int option"
  arg_retry_timeout :: int

definition default_args :: init_args where
  "default_args = \<lparr> arg_key = None, arg_client_id = None, arg_client_secret = None,
     arg_timeout = None, arg_connect_timeout = None, arg_read_timeout = None,
     arg_retry_timeout = 60 \<rparr>"

text \<open>
  The check of the version of requests, lines 98 to 101:
  \<open>chunks[0] < 2 or (chunks[0] == 2 and chunks[1] < 4)\<close> with \<open>chunks\<close> a list of
  strings. \<open>Inr True\<close> is the branch that raises \<open>NotImplementedError\<close>.
\<close>

definition requests_too_old :: "runtime \<Rightarrow> string \<Rightarrow> error + bool" where
  "requests_too_old rt version =
     (let chunks = split_dot version in
      case index chunks 0 of
        Inl e \<Rightarrow> Inl e
      | Inr c0 \<Rightarrow>
         (case str_lt_int rt c0 2 of
            Inl e \<Rightarrow> Inl e
          | Inr True \<Rightarrow> Inr True
          | Inr False \<Rightarrow>
             (if str_eq_int c0 2 then
                (case index chunks 1 of
                   Inl e \<Rightarrow> Inl e
                 | Inr c1 \<Rightarrow> str_lt_int rt c1 4)
              else Inr False)))"

text \<open>
  \<open>timedelta(seconds=n)\<close>, in microseconds (the resolution of \<open>datetime\<close>). A
  \<open>timedelta\<close> holds at most 999999999 days either way; beyond that the constructor raises
  \<open>OverflowError\<close>.
\<close>

definition timedelta_seconds :: "int \<Rightarrow> error + int" where
  "timedelta_seconds n =
     (if - 86399999913600 \<le> n \<and> n \<le> 86399999999999 then Inr (n * 1000000)
      else Inl OverflowError)"

definition make_timeout :: "int option \<Rightarrow> timeout_value" where
  "make_timeout t = (case t of None \<Rightarrow> NoTimeout | Some n \<Rightarrow> Single n)"

text \<open>\<open>Context.__init__\<close>, lines 83 to 108, on a runtime and a version of requests.\<close>

definition Context_init :: "runtime \<Rightarrow> string \<Rightarrow> init_args \<Rightarrow> error + Context" where
  "Context_init rt version a =
     (if \<not> truthy_str (arg_key a)
         \<and> \<not> (truthy_str (arg_client_secret a) \<and> truthy_str (arg_client_id a))
      then Inl (ValueError ''Must provide API key or enterprise credentials with context object.'')
      else if truthy_str (arg_key a) \<and> \<not> startswith (the (arg_key a)) ''AIza''
      then Inl (ValueError ''Invalid API key provided.'')
      else if truthy_int (arg_timeout a)
              \<and> (truthy_int (arg_connect_timeout a) \<or> truthy_int (arg_read_timeout a))
      then Inl (ValueError ''Specify either timeout, or connect_timeout and read_timeout'')
      else if truthy_int (arg_connect_timeout a) \<and> truthy_int (arg_read_timeout a)
      then (case requests_too_old rt version of
              Inl e \<Rightarrow> Inl e
            | Inr True \<Rightarrow>
                Inl (NotImplementedError ''Connect/Read timeouts require requests v2.4.0 or higher'')
            | Inr False \<Rightarrow>
                (case timedelta_seconds (arg_retry_timeout a) of
                   Inl e \<Rightarrow> Inl e
                 | Inr d \<Rightarrow>
                     Inr \<lparr> key = arg_key a,
                           timeout = ConnectRead (the (arg_connect_timeout a))
                                       (the (arg_read_timeout a)),
                           client_id = arg_client_id a,
                           client_secret = arg_client_secret a,
                           retry_timeout = d \<rparr>))
      else (case timedelta_seconds (arg_retry_timeout a) of
              Inl e \<Rightarrow> Inl e
            | Inr d \<Rightarrow>
                Inr \<lparr> key = arg_key a,
                      timeout = make_timeout (arg_timeout a),
                      client_id = arg_client_id a,
                      client_secret = arg_client_secret a,
                      retry_timeout = d \<rparr>))"

section \<open>The standard library: bytes, base64, SHA-1, HMAC, urlencode\<close>

text \<open>
  A \<open>str\<close> is represented by the list of its UTF-8 bytes (a \<open>string\<close> is a list of
  8-bit characters), so \<open>s.encode('utf-8')\<close> and \<open>b.decode('utf-8')\<close> only change the
  type. The strings of the model are therefore the ones that UTF-8 can encode: a \<open>str\<close>
  holding a lone surrogate, on which \<open>encode\<close> and \<open>urlencode\<close> raise
  \<open>UnicodeEncodeError\<close>, has no representation here, and statements about signing are
  about the other strings. \<open>bytes\<close> is a list of 8-bit words.
\<close>

type_synonym byte = "8 word"
type_synonym u32 = "32 word"

definition encode_utf8 :: "string \<Rightarrow> byte list" where
  "encode_utf8 s = map (\<lambda>c. of_nat (of_char c)) s"

definition decode_utf8 :: "byte list \<Rightarrow> string" where
  "decode_utf8 bs = map (\<lambda>b. char_of (unat b)) bs"

subsection \<open>\<open>base64.urlsafe_b64encode\<close> and \<open>base64.urlsafe_b64decode\<close> (RFC 4648)\<close>

definition b64_alphabet :: string where
  "b64_alphabet = ''ABCDEFGHIJKLMNOPQRSTUVWXYZabcdefghijklmnopqrstuvwxyz0123456789+/''"

definition b64_char :: "nat \<Rightarrow> char" where
  "b64_char i = b64_alphabet ! i"

fun b64encode_nat :: "nat list \<Rightarrow> string" where
  "b64encode_nat [] = []"
| "b64encode_nat [a] =
     [b64_char (a div 4), b64_char ((a mod 4) * 16), CHR ''='', CHR ''='']"
| "b64encode_nat [a, b] =
     [b64_char (a div 4), b64_char ((a mod 4) * 16 + b div 16),
      b64_char ((b mod 16) * 4), CHR ''='']"
| "b64encode_nat (a # b # c # rest) =
     b64_char (a div 4) # b64_char ((a mod 4) * 16 + b div 16) #
     b64_char ((b mod 16) * 4 + c div 64) # b64_char (c mod 64) # b64encode_nat rest"

definition b64encode :: "byte list \<Rightarrow> string" where
  "b64encode bs = b64encode_nat (map unat bs)"

text \<open>The encoding with \<open>-\<close> and \<open>_\<close> for \<open>+\<close> and \<open>/\<close>, as text.\<close>

definition base64url :: "byte list \<Rightarrow> string" where
  "base64url bs =
     map (\<lambda>c. if c = CHR ''+'' then CHR ''-'' else if c = CHR ''/'' then CHR ''_'' else c)
         (b64encode bs)"

text \<open>\<open>base64.urlsafe_b64encode\<close> returns that text as \<open>bytes\<close>.\<close>

definition urlsafe_b64encode :: "byte list \<Rightarrow> byte list" where
  "urlsafe_b64encode bs = encode_utf8 (base64url bs)"

definition b64_value :: "char \<Rightarrow> nat option" where
  "b64_value c =
     (let n = (of_char c :: nat) in
      if 65 \<le> n \<and> n \<le> 90 then Some (n - 65)
      else if 97 \<le> n \<and> n \<le> 122 then Some (n - 71)
      else if 48 \<le> n \<and> n \<le> 57 then Some (n + 4)
      else if c = CHR ''+'' then Some 62
      else if c = CHR ''/'' then Some 63
      else None)"

text \<open>
  \<open>binascii.a2b_base64\<close> without strict mode, as \<open>base64.b64decode\<close> calls it: characters
  outside the alphabet are skipped, a complete run of padding ends the decoding, and data
  that stops inside a group of four raises \<open>binascii.Error\<close>. The arguments are the
  position in the group, the bits left over, the padding seen and the bytes so far.
\<close>

fun a2b_base64 :: "string \<Rightarrow> nat \<Rightarrow> nat \<Rightarrow> nat \<Rightarrow> byte list \<Rightarrow> error + byte list" where
  "a2b_base64 [] quad_pos leftchar pads out =
     (if quad_pos \<noteq> 0 then Inl Base64Error else Inr out)"
| "a2b_base64 (c # cs) quad_pos leftchar pads out =
     (if c = CHR ''='' then
        (if quad_pos \<ge> 2 \<and> quad_pos + (pads + 1) \<ge> 4 then Inr out
         else a2b_base64 cs quad_pos leftchar (if quad_pos \<ge> 2 then pads + 1 else pads) out)
      else
        (case b64_value c of
           None \<Rightarrow> a2b_base64 cs quad_pos leftchar pads out
         | Some v \<Rightarrow>
            (if quad_pos = 0 then a2b_base64 cs 1 v 0 out
             else if quad_pos = 1 then
               a2b_base64 cs 2 (v mod 16) 0 (out @ [of_nat (leftchar * 4 + v div 16)])
             else if quad_pos = 2 then
               a2b_base64 cs 3 (v mod 4) 0 (out @ [of_nat (leftchar * 16 + v div 4)])
             else a2b_base64 cs 0 0 0 (out @ [of_nat (leftchar * 64 + v)]))))"

definition is_ascii :: "string \<Rightarrow> bool" where
  "is_ascii s = list_all (\<lambda>c. (of_char c :: nat) < 128) s"

definition urlsafe_b64decode :: "string \<Rightarrow> error + byte list" where
  "urlsafe_b64decode s =
     (if \<not> is_ascii s then Inl (ValueError ''string argument should contain only ASCII characters'')
      else a2b_base64
             (map (\<lambda>c. if c = CHR ''-'' then CHR ''+'' else if c = CHR ''_'' then CHR ''/'' else c) s)
             0 0 0 [])"

subsection \<open>\<open>hashlib.sha1\<close> (RFC 3174)\<close>

text \<open>Sums and rotations are cut to 32 bits; on \<open>u32\<close> this is the identity
  (\<open>mask32\<close> below).\<close>

definition rotl :: "nat \<Rightarrow> u32 \<Rightarrow> u32" where
  "rotl n w = (push_bit n w OR drop_bit (32 - n) w) AND 0xFFFFFFFF"

fun be_word :: "byte list \<Rightarrow> u32" where
  "be_word [] = 0"
| "be_word (b # bs) = push_bit (8 * length bs) (ucast b) OR be_word bs"

definition word_bytes :: "u32 \<Rightarrow> byte list" where
  "word_bytes w = [ucast (drop_bit 24 w), ucast (drop_bit 16 w), ucast (drop_bit 8 w), ucast w]"

definition length_bytes :: "nat \<Rightarrow> byte list" where
  "length_bytes n = map (\<lambda>i. of_nat (n div 2 ^ (8 * i))) [7, 6, 5, 4, 3, 2, 1, 0]"

definition sha1_pad :: "byte list \<Rightarrow> byte list" where
  "sha1_pad m = m @ [0x80] @ replicate ((119 - length m mod 64) mod 64) 0
                  @ length_bytes (8 * length m)"

fun chunks_of :: "nat \<Rightarrow> 'a list \<Rightarrow> 'a list list" where
  "chunks_of n [] = []"
| "chunks_of n (x # xs) =
     (if n = 0 then [] else take n (x # xs) # chunks_of n (drop n (x # xs)))"

text \<open>The message schedule, newest word first while it is built.\<close>

fun expand :: "nat \<Rightarrow> u32 list \<Rightarrow> u32 list" where
  "expand 0 ws = ws"
| "expand (Suc n) ws =
     expand n (rotl 1 (ws ! 2 XOR ws ! 7 XOR ws ! 13 XOR ws ! 15) # ws)"

definition schedule :: "byte list \<Rightarrow> u32 list" where
  "schedule block = rev (expand 64 (rev (map be_word (chunks_of 4 block))))"

definition sha1_f :: "nat \<Rightarrow> u32 \<Rightarrow> u32 \<Rightarrow> u32 \<Rightarrow> u32" where
  "sha1_f t b c d =
     (if t < 20 then (b AND c) OR (NOT b AND d)
      else if t < 40 then b XOR c XOR d
      else if t < 60 then (b AND c) OR (b AND d) OR (c AND d)
      else b XOR c XOR d)"

definition sha1_k :: "nat \<Rightarrow> u32" where
  "sha1_k t =
     (if t < 20 then 0x5A827999
      else if t < 40 then 0x6ED9EBA1
      else if t < 60 then 0x8F1BBCDC
      else 0xCA62C1D6)"

type_synonym sha1_state = "u32 \<times> u32 \<times> u32 \<times> u32 \<times> u32"

fun sha1_round :: "sha1_state \<Rightarrow> nat \<times> u32 \<Rightarrow> sha1_state" where
  "sha1_round (a, b, c, d, e) (t, w) =
     ((rotl 5 a + sha1_f t b c d + e + sha1_k t + w) AND 0xFFFFFFFF, a, rotl 30 b, c, d)"

fun sha1_rounds :: "nat \<Rightarrow> u32 list \<Rightarrow> sha1_state \<Rightarrow> sha1_state" where
  "sha1_rounds t [] s = s"
| "sha1_rounds t (w # ws) s = sha1_rounds (t + 1) ws (sha1_round s (t, w))"

fun sha1_block :: "sha1_state \<Rightarrow> byte list \<Rightarrow> sha1_state" where
  "sha1_block (h0, h1, h2, h3, h4) block =
     (case sha1_rounds 0 (schedule block) (h0, h1, h2, h3, h4) of
        (a, b, c, d, e) \<Rightarrow>
          ((h0 + a) AND 0xFFFFFFFF, (h1 + b) AND 0xFFFFFFFF, (h2 + c) AND 0xFFFFFFFF,
           (h3 + d) AND 0xFFFFFFFF, (h4 + e) AND 0xFFFFFFFF))"

definition sha1_init :: sha1_state where
  "sha1_init = (0x67452301, 0xEFCDAB89, 0x98BADCFE, 0x10325476, 0xC3D2E1F0)"

definition sha1 :: "byte list \<Rightarrow> byte list" where
  "sha1 m =
     (case foldl sha1_block sha1_init (chunks_of 64 (sha1_pad m)) of
        (h0, h1, h2, h3, h4) \<Rightarrow> concat (map word_bytes [h0, h1, h2, h3, h4]))"

subsection \<open>\<open>hmac.new(key, msg, hashlib.sha1).digest()\<close> (RFC 2104)\<close>

definition hmac_key_block :: "byte list \<Rightarrow> byte list" where
  "hmac_key_block k =
     (let k' = (if length k > 64 then sha1 k else k)
      in k' @ replicate (64 - length k') 0)"

definition hmac_sha1 :: "byte list \<Rightarrow> byte list \<Rightarrow> byte list" where
  "hmac_sha1 k m =
     (let kb = hmac_key_block k
      in sha1 (map (\<lambda>b. b XOR 0x5C) kb @ sha1 (map (\<lambda>b. b XOR 0x36) kb @ m)))"

subsection \<open>\<open>urlencode\<close> of a dict of strings\<close>

text \<open>
  A dict is the list of its items in iteration order, with no key twice.
  \<open>d[k] = v\<close> replaces the value of a key that is there and appends a new key
  (insertion order, as dicts keep it from Python 3.7; the hash order of older dicts is not
  modelled).
\<close>

type_synonym dict = "(string \<times> string) list"

fun dict_set :: "string \<Rightarrow> string \<Rightarrow> dict \<Rightarrow> dict" where
  "dict_set k v [] = [(k, v)]"
| "dict_set k v ((k', v') # d) =
     (if k' = k then (k, v) # d else (k', v') # dict_set k v d)"

fun dict_get :: "dict \<Rightarrow> string \<Rightarrow> string option" where
  "dict_get [] k = None"
| "dict_get ((k', v') # d) k = (if k' = k then Some v' else dict_get d k)"

text \<open>
  \<open>quote_plus\<close>: letters, digits and \<open>_.-\<close> stay, on Python 3 (from 3.7) also \<open>~\<close>;
  a space becomes \<open>+\<close>; every other byte becomes \<open>%XX\<close>.
\<close>

definition always_safe :: "runtime \<Rightarrow> char \<Rightarrow> bool" where
  "always_safe rt c =
     (let n = (of_char c :: nat) in
      (65 \<le> n \<and> n \<le> 90) \<or> (97 \<le> n \<and> n \<le> 122) \<or> (48 \<le> n \<and> n \<le> 57)
      \<or> c = CHR ''_'' \<or> c = CHR ''.'' \<or> c = CHR ''-''
      \<or> (rt = Python3 \<and> c = CHR ''~''))"

definition hex_digit :: "nat \<Rightarrow> char" where
  "hex_digit i = ''0123456789ABCDEF'' ! i"

definition quote_char :: "runtime \<Rightarrow> char \<Rightarrow> string" where
  "quote_char rt c =
     (if always_safe rt c then [c]
      else if c = CHR '' '' then ''+''
      else [CHR ''%'', hex_digit ((of_char c :: nat) div 16), hex_digit ((of_char c :: nat) mod 16)])"

definition quote_plus :: "runtime \<Rightarrow> string \<Rightarrow> string" where
  "quote_plus rt s = concat (map (quote_char rt) s)"

fun join_amp :: "string list \<Rightarrow> string" where
  "join_amp [] = []"
| "join_amp [x] = x"
| "join_amp (x # y # ys) = x @ ''&'' @ join_amp (y # ys)"

definition urlencode :: "runtime \<Rightarrow> dict \<Rightarrow> string" where
  "urlencode rt d = join_amp (map (\<lambda>(k, v). quote_plus rt k @ ''='' @ quote_plus rt v) d)"

section \<open>Signing\<close>

text \<open>
  \<open>s.encode('utf-8')\<close> of a \<open>str\<close>, line 140. On Python 3 it gives the UTF-8 bytes. On
  Python 2 a \<open>str\<close> is bytes already and is first decoded as ASCII, which raises
  \<open>UnicodeDecodeError\<close> at a byte beyond 127: the comment of line 138 is right for ASCII
  only.
\<close>

definition str_encode :: "runtime \<Rightarrow> string \<Rightarrow> error + byte list" where
  "str_encode rt s =
     (case rt of
        Python2 \<Rightarrow> (if is_ascii s then Inr (encode_utf8 s) else Inl UnicodeDecodeError)
      | Python3 \<Rightarrow> Inr (encode_utf8 s))"

text \<open>\<open>_hmac_sign(secret, s)\<close>, lines 130 to 143.\<close>

definition hmac_sign :: "runtime \<Rightarrow> string \<Rightarrow> string \<Rightarrow> error + string" where
  "hmac_sign rt secret s =
     (case str_encode rt s of
        Inl e \<Rightarrow> Inl e
      | Inr s' \<Rightarrow>
         (case urlsafe_b64decode secret of
            Inl e \<Rightarrow> Inl e
          | Inr k \<Rightarrow> Inr (decode_utf8 (urlsafe_b64encode (hmac_sha1 k s')))))"

text \<open>
  \<open>Context._auth_url(self, path, params)\<close>, lines 110 to 128. The result is what the call
  returns or raises, with \<open>self\<close> and \<open>params\<close> as the call leaves them: \<open>params\<close> is the
  caller's dict and the method assigns into it. \<open>Inr None\<close> is the end of the body reached
  with no \<open>return\<close>.
\<close>

definition auth_url ::
  "runtime \<Rightarrow> Context \<Rightarrow> string \<Rightarrow> dict \<Rightarrow> (error + string option) \<times> Context \<times> dict" where
  "auth_url rt self path params =
     (if truthy_str (key self) then
        (let params' = dict_set ''key'' (the (key self)) params
         in (Inr (Some (path @ ''?'' @ urlencode rt params')), self, params'))
      else if truthy_str (client_id self) \<and> truthy_str (client_secret self) then
        (let params' = dict_set ''client'' (the (client_id self)) params;
             path' = path @ ''?'' @ urlencode rt params'
         in case hmac_sign rt (the (client_secret self)) path' of
              Inl e \<Rightarrow> (Inl e, self, params')
            | Inr sig \<Rightarrow> (Inr (Some (path' @ ''&signature='' @ sig)), self, params'))
      else (Inr None, self, params))"

section \<open>Requests\<close>

text \<open>
  \<open>ApiError.__str__\<close>, lines 211 to 215.
\<close>

definition ApiError_str :: "ApiError \<Rightarrow> string" where
  "ApiError_str e =
     (case message e of
        None \<Rightarrow> status e
      | Some m \<Rightarrow> status e @ '' ('' @ m @ '')'')"

text \<open>
  The parsed body of a response is a JSON object with a string under \<open>"status"\<close>, possibly a
  string under \<open>"error_message"\<close>, and the rest of its content. What \<open>requests.get\<close> gives
  is a network failure (the call raises) or a response with its status code and its body,
  \<open>None\<close> when \<open>resp.json()\<close> raises because the body is not JSON.
\<close>

record 'a body =
  body_status :: string
  error_message :: "string option"
  content :: 'a

datatype 'a reply = NetworkError | Response int "'a body option"

text \<open>
  What one attempt reads from the world: the clock on entry (read only when no first request
  time was passed), the draw of \<open>random.random()\<close>, the reply, and the clock after the
  request. Clock readings are in microseconds.
\<close>

record 'a attempt =
  clock_entry :: int
  jitter :: real
  reply :: "'a reply"
  clock_after :: int

text \<open>What a call does to the world: it sleeps and it sends requests.\<close>

datatype event = Sleep real | HttpGet string timeout_value

text \<open>\<open>Response.raise_for_status()\<close> of requests raises for the codes 400 to 599 only.\<close>

definition raise_for_status :: "int \<Rightarrow> error + unit" where
  "raise_for_status status_code =
     (if 400 \<le> status_code \<and> status_code < 600 then Inl (HTTPError status_code) else Inr ())"

text \<open>
  \<open>0.5 * 1.5 ** (retry_counter - 1)\<close>, line 170, read for a positive counter. Seconds are
  exact real numbers here: the rounding of Python's floats, and the \<open>OverflowError\<close> of
  \<open>**\<close> beyond their range, are not part of the model, and nothing below is claimed about
  the length of a sleep for every counter.
\<close>

definition delay_seconds :: "int \<Rightarrow> real" where
  "delay_seconds retry_counter = 0.5 * 1.5 ^ nat (retry_counter - 1)"

type_synonym 'a get_result = "(error + 'a body) option \<times> event list \<times> dict"

definition after_events :: "event list \<Rightarrow> 'a get_result \<Rightarrow> 'a get_result" where
  "after_events evs r = (case r of (res, evs', params) \<Rightarrow> (res, evs @ evs', params))"

text \<open>
  \<open>_get(ctx, url, params, first_request_time, retry_counter)\<close>, lines 163 to 202, on the list
  of what its attempts read from the world. The result is what the call returns or raises
  (\<open>None\<close> when the list ends before the call does), the events in order, and \<open>params\<close>
  as the call leaves it.
\<close>

fun get ::
  "runtime \<Rightarrow> Context \<Rightarrow> string \<Rightarrow> dict \<Rightarrow> int option \<Rightarrow> int \<Rightarrow> 'a attempt list
     \<Rightarrow> 'a get_result" where
  "get rt ctx url params first_request_time retry_counter [] = (None, [], params)"
| "get rt ctx url params first_request_time retry_counter (a # env) =
     (let first_request_time' =
            (case first_request_time of None \<Rightarrow> clock_entry a | Some t \<Rightarrow> t);
          sleeps =
            (if retry_counter > 0
             then [Sleep (delay_seconds retry_counter * (jitter a + 0.5))] else [])
      in case auth_url rt ctx url params of
           (Inl e, ctx', params') \<Rightarrow> (Some (Inl e), sleeps, params')
         | (Inr None, ctx', params') \<Rightarrow> (Some (Inl TypeError), sleeps, params')
         | (Inr (Some u), ctx', params') \<Rightarrow>
            (let evs = sleeps @ [HttpGet (''https://maps.googleapis.com'' @ u) (timeout ctx')]
             in case reply a of
                  NetworkError \<Rightarrow> (Some (Inl ConnectionError), evs, params')
                | Response status_code json \<Rightarrow>
                   (let exceeded_timeout =
                          (clock_after a - first_request_time' > retry_timeout ctx')
                    in if status_code \<in> set [500, 503, 504] \<and> \<not> exceeded_timeout then
                         after_events evs
                           (get rt ctx' url params' (Some first_request_time')
                              (retry_counter + 1) env)
                       else
                         (case (if status_code \<noteq> 200 then raise_for_status status_code
                                else Inr ()) of
                            Inl e \<Rightarrow> (Some (Inl e), evs, params')
                          | Inr _ \<Rightarrow>
                             (case json of
                                None \<Rightarrow> (Some (Inl JSONDecodeError), evs, params')
                              | Some body \<Rightarrow>
                                 (if body_status body = ''OK''
                                     \<or> body_status body = ''ZERO_RESULTS''
                                  then (Some (Inr body), evs, params')
                                  else if body_status body = ''OVER_QUERY_LIMIT''
                                          \<and> \<not> exceeded_timeout
                                  then after_events evs
                                         (get rt ctx' url params' (Some first_request_time')
                                            (retry_counter + 1) env)
                                  else
                                    (case error_message body of
                                       Some m \<Rightarrow>
                                         (Some (Inl (ApiException
                                            (ApiError (body_status body) (Some m)))),
                                          evs, params')
                                     | None \<Rightarrow>
                                         (Some (Inl (ApiException
                                            (ApiError (body_status body) None))),
                                          evs, params'))))))))"

section \<open>Credential modes\<close>

text \<open>A field is set when it is true for Python: a string that is not empty.\<close>

definition api_key_mode :: "Context \<Rightarrow> bool" where
  "api_key_mode ctx = truthy_str (key ctx)"

definition enterprise_mode :: "Context \<Rightarrow> bool" where
  "enterprise_mode ctx = (truthy_str (client_id ctx) \<and> truthy_str (client_secret ctx))"

definition both_modes_args :: init_args where
  "both_modes_args = default_args \<lparr> arg_key := Some ''AIzaSyTest'',
     arg_client_id := Some ''foo'', arg_client_secret := Some ''a2V5'' \<rparr>"

definition both_modes_context :: Context where
  "both_modes_context = \<lparr> key = Some ''AIzaSyTest'', timeout = NoTimeout,
     client_id = Some ''foo'', client_secret = Some ''a2V5'', retry_timeout = 60000000 \<rparr>"

definition connect_read_args :: init_args where
  "connect_read_args = default_args \<lparr> arg_key := Some ''AIzaSyTest'',
     arg_connect_timeout := Some 3, arg_read_timeout := Some 5 \<rparr>"

definition malformed_secret_args :: init_args where
  "malformed_secret_args = default_args \<lparr> arg_client_id := Some ''foo'',
     arg_client_secret := Some ''abc'' \<rparr>"

definition malformed_secret_context :: Context where
  "malformed_secret_context = \<lparr> key = None, timeout = NoTimeout,
     client_id = Some ''foo'', client_secret = Some ''abc'', retry_timeout = 60000000 \<rparr>"

definition api_key_context :: Context where
  "api_key_context = \<lparr> key = Some ''AIzaSyTest'', timeout = Single 10,
     client_id = None, client_secret = None, retry_timeout = 60000000 \<rparr>"

definition api_key_args :: init_args where
  "api_key_args = default_args \<lparr> arg_key := Some ''AIzaSyTest'', arg_timeout := Some 10 \<rparr>"




section \<open>Classification of replies\<close>

text \<open>The classification of the spec: which replies are retried, and what the caller gets
  from a reply that is not.\<close>

definition retryable :: "'a reply \<Rightarrow> bool" where
  "retryable r =
     (case r of
        NetworkError \<Rightarrow> False
      | Response status_code json \<Rightarrow>
          status_code \<in> {500, 503, 504}
          \<or> (status_code = 200
              \<and> (case json of None \<Rightarrow> False
                  | Some b \<Rightarrow> body_status b = ''OVER_QUERY_LIMIT'')))"

definition surfaced :: "'a reply \<Rightarrow> error + 'a body" where
  "surfaced r =
     (case r of
        NetworkError \<Rightarrow> Inl ConnectionError
      | Response status_code json \<Rightarrow>
          (if status_code \<noteq> 200 then Inl (HTTPError status_code)
           else (case json of
                   None \<Rightarrow> Inl JSONDecodeError
                 | Some b \<Rightarrow>
                     (if body_status b = ''OK'' \<or> body_status b = ''ZERO_RESULTS'' then Inr b
                      else Inl (ApiException (ApiError (body_status b) (error_message b)))))))"

definition error_or_ok_code :: "'a reply \<Rightarrow> bool" where
  "error_or_ok_code r =
     (case r of
        NetworkError \<Rightarrow> True
      | Response status_code json \<Rightarrow>
          status_code = 200 \<or> (400 \<le> status_code \<and> status_code < 600))"

definition attempt_events :: "int \<Rightarrow> 'a attempt \<Rightarrow> string \<Rightarrow> timeout_value \<Rightarrow> event list" where
  "attempt_events retry_counter a u t =
     (if retry_counter > 0 then [Sleep (delay_seconds retry_counter * (jitter a + 0.5))] else [])
     @ [HttpGet (''https://maps.googleapis.com'' @ u) t]"

definition over_limit_body :: "unit body" where
  "over_limit_body = \<lparr> body_status = ''OVER_QUERY_LIMIT'', error_message = None, content = () \<rparr>"

definition ok_body :: "unit body" where
  "ok_body = \<lparr> body_status = ''OK'', error_message = None, content = () \<rparr>"

definition invalid_request_body :: "unit body" where
  "invalid_request_body =
     \<lparr> body_status = ''INVALID_REQUEST'', error_message = Some ''bad param'', content = () \<rparr>"

text \<open>A reply with the code 203 and a quota body, then a success two seconds after the start.\<close>

definition proxy_env :: "unit attempt list" where
  "proxy_env =
     [\<lparr> clock_entry = 0, jitter = 0, reply = Response 203 (Some over_limit_body),
        clock_after = 100000 \<rparr>,
      \<lparr> clock_entry = 100000, jitter = 1 / 2, reply = Response 200 (Some ok_body),
        clock_after = 2000000 \<rparr>]"


definition invalid_request_attempt :: "unit attempt" where
  "invalid_request_attempt = \<lparr> clock_entry = 0, jitter = 1 / 4,
     reply = Response 200 (Some invalid_request_body), clock_after = 100000 \<rparr>"

section \<open>Properties of construction\<close>

lemma split_dot_nonempty: "split_dot s \<noteq> []"
  by (induction s) (auto split: list.splits)

lemma requests_too_old_Python2: "requests_too_old Python2 version = Inr False"
proof (cases "split_dot version")
  case Nil
  then show ?thesis using split_dot_nonempty by blast
next
  case (Cons c cs)
  then show ?thesis
    by (simp add: requests_too_old_def str_lt_int_def str_eq_int_def Let_def)
qed

lemma requests_too_old_Python3: "requests_too_old Python3 version = Inl TypeError"
proof (cases "split_dot version")
  case Nil
  then show ?thesis using split_dot_nonempty by blast
next
  case (Cons c cs)
  then show ?thesis
    by (simp add: requests_too_old_def str_lt_int_def Let_def)
qed

lemma Context_init_fields:
  assumes "Context_init rt version a = Inr ctx"
  shows "key ctx = arg_key a" and "client_id ctx = arg_client_id a"
    and "client_secret ctx = arg_client_secret a"
    and "timedelta_seconds (arg_retry_timeout a) = Inr (retry_timeout ctx)"
  using assms
  by (auto simp: Context_init_def split: if_splits sum.splits bool.splits)

lemma Context_init_credentials:
  assumes "Context_init rt version a = Inr ctx"
  shows "api_key_mode ctx \<or> enterprise_mode ctx"
  using assms
  by (auto simp: Context_init_def api_key_mode_def enterprise_mode_def
           split: if_splits sum.splits bool.splits)

lemma Context_init_key_prefix:
  assumes "Context_init rt version a = Inr ctx" and "api_key_mode ctx"
  shows "startswith (the (key ctx)) ''AIza''"
  using assms
  by (auto simp: Context_init_def api_key_mode_def split: if_splits sum.splits bool.splits)

lemma Context_init_no_credentials:
  assumes "\<not> truthy_str (arg_key a)"
    and "\<not> (truthy_str (arg_client_id a) \<and> truthy_str (arg_client_secret a))"
  shows "Context_init rt version a =
           Inl (ValueError ''Must provide API key or enterprise credentials with context object.'')"
  using assms by (auto simp: Context_init_def)

lemma auth_url_api_key:
  assumes "api_key_mode ctx"
  shows "auth_url rt ctx path params =
           (Inr (Some (path @ ''?'' @ urlencode rt (dict_set ''key'' (the (key ctx)) params))),
            ctx, dict_set ''key'' (the (key ctx)) params)"
  using assms by (simp add: auth_url_def api_key_mode_def Let_def)

text \<open>
  Against C7 as stated: a key together with both enterprise fields passes construction, and
  the context then has the API key set and the enterprise pair set at once.
\<close>

theorem both_modes_pass_construction:
  "Context_init Python3 ''2.4.0'' both_modes_args = Inr both_modes_context
   \<and> api_key_mode both_modes_context \<and> enterprise_mode both_modes_context"
  by (simp add: Context_init_def both_modes_args_def both_modes_context_def default_args_def
        startswith_def make_timeout_def timedelta_seconds_def api_key_mode_def
        enterprise_mode_def)

text \<open>
  C7, amended: every context that passes construction has at least one credential mode set,
  the API key or both of client id and client secret; when the key is set, it starts with
  \<open>AIza\<close> and signing is done in API-key mode whatever the enterprise fields hold; and
  construction fails with \<open>ValueError\<close> when neither mode is supplied.
\<close>

theorem some_credential_mode:
  "(Context_init rt version a = Inr ctx \<longrightarrow>
      (api_key_mode ctx \<or> enterprise_mode ctx)
      \<and> (api_key_mode ctx \<longrightarrow>
            startswith (the (key ctx)) ''AIza''
            \<and> fst (auth_url rt' ctx path params) =
                Inr (Some (path @ ''?'' @ urlencode rt' (dict_set ''key'' (the (key ctx)) params)))))
   \<and> (\<not> truthy_str (arg_key a)
        \<and> \<not> (truthy_str (arg_client_id a) \<and> truthy_str (arg_client_secret a)) \<longrightarrow>
        Context_init rt version a =
          Inl (ValueError ''Must provide API key or enterprise credentials with context object.''))"
  using Context_init_credentials [of rt version a ctx] auth_url_api_key [of ctx rt' path params]
    Context_init_no_credentials [of a rt version] Context_init_key_prefix [of rt version a ctx]
  by auto

text \<open>The amended C7 at a context with both modes set, and at no credentials at all.\<close>

theorem some_credential_mode_witness:
  "Context_init Python3 ''2.4.0'' both_modes_args = Inr both_modes_context
   \<and> api_key_mode both_modes_context
   \<and> fst (auth_url Python3 both_modes_context ''/maps/api/geocode/json'' [(''address'', ''Sydney'')])
       = Inr (Some ''/maps/api/geocode/json?address=Sydney&key=AIzaSyTest'')
   \<and> \<not> truthy_str (arg_key default_args)
   \<and> \<not> (truthy_str (arg_client_id default_args) \<and> truthy_str (arg_client_secret default_args))
   \<and> Context_init Python2 ''2.4.0'' default_args =
          Inl (ValueError ''Must provide API key or enterprise credentials with context object.'')"
proof -
  have c: "Context_init Python3 ''2.4.0'' both_modes_args = Inr both_modes_context"
    by (simp add: Context_init_def both_modes_args_def both_modes_context_def default_args_def
        startswith_def make_timeout_def timedelta_seconds_def)
  have m: "api_key_mode both_modes_context"
    by (simp add: api_key_mode_def both_modes_context_def)
  have u: "urlencode Python3 (dict_set ''key'' (the (key both_modes_context)) [(''address'', ''Sydney'')])
             = ''address=Sydney&key=AIzaSyTest''"
    by (simp add: both_modes_context_def urlencode_def quote_plus_def quote_char_def
          always_safe_def)
  have n: "\<not> truthy_str (arg_key default_args)
     \<and> \<not> (truthy_str (arg_client_id default_args) \<and> truthy_str (arg_client_secret default_args))"
    by (simp add: default_args_def)
  from some_credential_mode [of Python3 "''2.4.0''" both_modes_args both_modes_context
        Python3 "''/maps/api/geocode/json''" "[(''address'', ''Sydney'')]"] c m u
  have 1: "fst (auth_url Python3 both_modes_context ''/maps/api/geocode/json'' [(''address'', ''Sydney'')])
       = Inr (Some ''/maps/api/geocode/json?address=Sydney&key=AIzaSyTest'')"
    by simp
  from some_credential_mode [of Python2 "''2.4.0''" default_args] n
  have 2: "Context_init Python2 ''2.4.0'' default_args =
          Inl (ValueError ''Must provide API key or enterprise credentials with context object.'')"
    by blast
  from c m 1 n 2 show ?thesis by blast
qed

text \<open>
  The part of C2 that holds: with one credential mode, at most one timeout form and a retry
  timeout that a \<open>timedelta\<close> can hold, construction succeeds on Python 2, and on Python 3
  as long as the connect and read timeouts are not both given; every invalid combination
  raises \<open>ValueError\<close>.
\<close>

lemma Context_init_valid:
  assumes "(truthy_str (arg_key a) \<and> startswith (the (arg_key a)) ''AIza'')
           \<or> (\<not> truthy_str (arg_key a) \<and> truthy_str (arg_client_id a)
               \<and> truthy_str (arg_client_secret a))"
    and "\<not> (truthy_int (arg_timeout a)
             \<and> (truthy_int (arg_connect_timeout a) \<or> truthy_int (arg_read_timeout a)))"
    and "rt = Python2 \<or> \<not> (truthy_int (arg_connect_timeout a) \<and> truthy_int (arg_read_timeout a))"
    and "- 86399999913600 \<le> arg_retry_timeout a" and "arg_retry_timeout a \<le> 86399999999999"
  shows "\<exists>ctx. Context_init rt version a = Inr ctx"
  using assms
  by (cases rt) (auto simp: Context_init_def requests_too_old_Python2 timedelta_seconds_def)

lemma Context_init_invalid:
  assumes "(\<not> truthy_str (arg_key a)
             \<and> \<not> (truthy_str (arg_client_id a) \<and> truthy_str (arg_client_secret a)))
           \<or> (truthy_str (arg_key a) \<and> \<not> startswith (the (arg_key a)) ''AIza'')
           \<or> (truthy_int (arg_timeout a)
               \<and> (truthy_int (arg_connect_timeout a) \<or> truthy_int (arg_read_timeout a)))"
  shows "\<exists>msg. Context_init rt version a = Inl (ValueError msg)"
  using assms by (auto simp: Context_init_def)

lemma Context_init_Python3_pair:
  assumes "truthy_int (arg_connect_timeout a)" and "truthy_int (arg_read_timeout a)"
  shows "\<exists>e. Context_init Python3 version a = Inl e"
  using assms by (auto simp: Context_init_def requests_too_old_Python3)

text \<open>
  C2, at the input where the code departs from it: a valid API key with a connect and a
  read timeout and no single timeout. On Python 3 the comparison \<open>chunks[0] < 2\<close> of a
  string with an integer raises \<open>TypeError\<close>, so construction does not succeed; on
  Python 2 the same input builds the context.
\<close>

theorem connect_read_pair_Python3:
  "Context_init Python3 ''2.4.0'' connect_read_args = Inl TypeError
   \<and> Context_init Python2 ''2.4.0'' connect_read_args =
       Inr \<lparr> key = Some ''AIzaSyTest'', timeout = ConnectRead 3 5,
             client_id = None, client_secret = None, retry_timeout = 60000000 \<rparr>"
  by (simp add: Context_init_def connect_read_args_def default_args_def startswith_def
        requests_too_old_Python3 requests_too_old_Python2 timedelta_seconds_def)

lemma dict_get_dict_set_same: "dict_get (dict_set k v d) k = Some v"
  by (induction d) auto

lemma dict_get_dict_set_other: "k' \<noteq> k \<Longrightarrow> dict_get (dict_set k v d) k' = dict_get d k'"
  by (induction d) auto

lemma dict_set_idem: "dict_set k v (dict_set k v d) = dict_set k v d"
  by (induction d) auto

lemma truthy_str_the: "truthy_str x \<Longrightarrow> Some (the x) = x"
  by (cases x) auto

lemma auth_url_enterprise:
  assumes "\<not> api_key_mode ctx" and "enterprise_mode ctx"
  shows "auth_url rt ctx path params =
     (let params' = dict_set ''client'' (the (client_id ctx)) params;
          path' = path @ ''?'' @ urlencode rt params'
      in case hmac_sign rt (the (client_secret ctx)) path' of
           Inl e \<Rightarrow> (Inl e, ctx, params')
         | Inr sig \<Rightarrow> (Inr (Some (path' @ ''&signature='' @ sig)), ctx, params'))"
  using assms by (simp add: auth_url_def api_key_mode_def enterprise_mode_def)

lemma decode_encode_utf8: "decode_utf8 (encode_utf8 s) = s"
proof -
  have "char_of (unat (of_nat (of_char c) :: byte)) = c" for c :: char
  proof -
    have "(of_char c :: nat) < 256" by simp
    then have "unat (of_nat (of_char c) :: byte) = of_char c"
      by (simp add: unat_of_nat)
    then show ?thesis by simp
  qed
  then show ?thesis
    by (simp add: decode_utf8_def encode_utf8_def map_idI)
qed

lemma hmac_sign_decoded:
  assumes "str_encode rt s = Inr m" and "urlsafe_b64decode secret = Inr k"
  shows "hmac_sign rt secret s = Inr (base64url (hmac_sha1 k m))"
  using assms
  by (simp add: hmac_sign_def urlsafe_b64encode_def decode_encode_utf8)


text \<open>
  Against C9 as stated: a context in enterprise mode whose client secret is not base64
  passes construction, and signing then raises instead of returning a string.
\<close>

theorem malformed_secret_raises:
  "Context_init Python3 ''2.4.0'' malformed_secret_args = Inr malformed_secret_context
   \<and> fst (auth_url Python3 malformed_secret_context ''/maps/api/geocode/json''
              [(''address'', ''Sydney'')]) = Inl Base64Error"
  by (simp add: Context_init_def malformed_secret_args_def malformed_secret_context_def
        default_args_def make_timeout_def timedelta_seconds_def auth_url_def hmac_sign_def
        str_encode_def urlsafe_b64decode_def is_ascii_def b64_value_def)

text \<open>
  C9, amended: for every context that passes construction, every path and every params,
  \<open>_auth_url\<close> never reaches the end of its body to return \<open>None\<close>: a call that returns,
  returns a string. (A call may raise instead, as it does for a client secret that base64
  decoding rejects.)
\<close>

theorem auth_url_never_None:
  assumes "Context_init rt version a = Inr ctx"
  shows "fst (auth_url rt' ctx path params) \<noteq> Inr None"
proof (cases "api_key_mode ctx")
  case True
  then show ?thesis by (simp add: auth_url_api_key)
next
  case False
  with Context_init_credentials [OF assms] have e: "enterprise_mode ctx" by simp
  show ?thesis
  proof (cases "hmac_sign rt' (the (client_secret ctx))
                  (path @ ''?'' @ urlencode rt' (dict_set ''client'' (the (client_id ctx)) params))")
    case (Inl err)
    with False e show ?thesis by (simp add: auth_url_enterprise Let_def)
  next
    case (Inr sig)
    with False e show ?thesis by (simp add: auth_url_enterprise Let_def)
  qed
qed

text \<open>
  The amended C9 at the context with the malformed secret, where the call raises, and at a
  context in API-key mode, where it returns a string.
\<close>

theorem auth_url_never_None_witness:
  "Context_init Python3 ''2.4.0'' malformed_secret_args = Inr malformed_secret_context
   \<and> fst (auth_url Python2 malformed_secret_context ''/maps/api/directions/json'' [])
       \<noteq> Inr None
   \<and> Context_init Python3 ''2.4.0'' api_key_args = Inr api_key_context
   \<and> fst (auth_url Python3 api_key_context ''/maps/api/directions/json'' [])
       \<noteq> Inr None"
proof -
  have c: "Context_init Python3 ''2.4.0'' malformed_secret_args = Inr malformed_secret_context"
    by (simp add: Context_init_def malformed_secret_args_def malformed_secret_context_def
        default_args_def make_timeout_def timedelta_seconds_def)
  have d: "Context_init Python3 ''2.4.0'' api_key_args = Inr api_key_context"
    by (simp add: Context_init_def api_key_args_def api_key_context_def default_args_def
        startswith_def make_timeout_def timedelta_seconds_def)
  note n1 = auth_url_never_None [OF c, of Python2 "''/maps/api/directions/json''" "[]"]
  note n2 = auth_url_never_None [OF d, of Python3 "''/maps/api/directions/json''" "[]"]
  from c n1 d n2 show ?thesis by (intro conjI)
qed

text \<open>
  C10: a call of \<open>_auth_url\<close> on a context that passed construction leaves the context as
  it was and assigns one entry of the caller's params: \<open>"key"\<close> becomes the API key in
  API-key mode, \<open>"client"\<close> becomes the client id in enterprise mode, also when the call
  raises; every other key keeps its value.
\<close>

theorem auth_url_frame:
  assumes "Context_init rt version a = Inr ctx"
    and "auth_url rt' ctx path params = (r, self', params')"
  shows "self' = ctx
         \<and> (api_key_mode ctx \<longrightarrow>
               params' = dict_set ''key'' (the (key ctx)) params
               \<and> dict_get params' ''key'' = key ctx
               \<and> (\<forall>k. k \<noteq> ''key'' \<longrightarrow> dict_get params' k = dict_get params k))
         \<and> (\<not> api_key_mode ctx \<longrightarrow>
               params' = dict_set ''client'' (the (client_id ctx)) params
               \<and> dict_get params' ''client'' = client_id ctx
               \<and> (\<forall>k. k \<noteq> ''client'' \<longrightarrow> dict_get params' k = dict_get params k))"
proof (cases "api_key_mode ctx")
  case True
  then have "Some (the (key ctx)) = key ctx"
    by (simp add: api_key_mode_def truthy_str_the)
  with True assms(2) show ?thesis
    by (auto simp: auth_url_api_key dict_get_dict_set_same dict_get_dict_set_other)
next
  case False
  with Context_init_credentials [OF assms(1)] have e: "enterprise_mode ctx" by simp
  then have "Some (the (client_id ctx)) = client_id ctx"
    by (simp add: enterprise_mode_def truthy_str_the)
  with False e assms(2) show ?thesis
    by (auto simp: auth_url_enterprise Let_def dict_get_dict_set_same dict_get_dict_set_other
             split: sum.splits)
qed

text \<open>
  C10 at a context in API-key mode.
\<close>

theorem auth_url_frame_witness:
  "Context_init Python2 ''2.3.0'' api_key_args = Inr api_key_context
   \<and> auth_url Python2 api_key_context ''/maps/api/geocode/json'' [(''address'', ''Sydney'')]
       = (Inr (Some ''/maps/api/geocode/json?address=Sydney&key=AIzaSyTest''),
          api_key_context, [(''address'', ''Sydney''), (''key'', ''AIzaSyTest'')])
   \<and> api_key_mode api_key_context
   \<and> dict_get [(''address'', ''Sydney''), (''key'', ''AIzaSyTest'')] ''key''
       = key api_key_context
   \<and> dict_get [(''address'', ''Sydney''), (''key'', ''AIzaSyTest'')] ''address''
       = dict_get [(''address'', ''Sydney'')] ''address''"
proof -
  have c: "Context_init Python2 ''2.3.0'' api_key_args = Inr api_key_context"
    by (simp add: Context_init_def api_key_args_def api_key_context_def default_args_def
        startswith_def make_timeout_def timedelta_seconds_def)
  have u: "auth_url Python2 api_key_context ''/maps/api/geocode/json'' [(''address'', ''Sydney'')]
       = (Inr (Some ''/maps/api/geocode/json?address=Sydney&key=AIzaSyTest''),
          api_key_context, [(''address'', ''Sydney''), (''key'', ''AIzaSyTest'')])"
    by (simp add: auth_url_def api_key_context_def urlencode_def quote_plus_def quote_char_def
        always_safe_def)
  have m: "api_key_mode api_key_context"
    by (simp add: api_key_mode_def api_key_context_def)
  note f = auth_url_frame [OF c u]
  note g = mp [OF conjunct1 [OF conjunct2 [OF f]] m]
  note d1 = conjunct1 [OF conjunct2 [OF g]]
  have ne: "''address'' \<noteq> ''key''" by simp
  note d2 = mp [OF spec [OF conjunct2 [OF conjunct2 [OF g]], of "''address''"] ne]
  from c u m d1 d2 show ?thesis by (intro conjI)
qed

text \<open>
  Signing again with the dict that the first call has written into gives the same result;
  this is the second call that a retry makes.
\<close>

lemma auth_url_again:
  "fst (auth_url rt ctx path (snd (snd (auth_url rt ctx path params))))
     = fst (auth_url rt ctx path params)"
proof (cases "api_key_mode ctx")
  case True
  then show ?thesis
    by (simp add: auth_url_api_key dict_set_idem)
next
  case no_key: False
  show ?thesis
  proof (cases "enterprise_mode ctx")
    case True
    with no_key show ?thesis
      by (simp add: auth_url_enterprise Let_def dict_set_idem split: sum.splits)
  next
    case False
    with no_key have "auth_url rt ctx path q = (Inr None, ctx, q)" for q
      by (auto simp: auth_url_def api_key_mode_def enterprise_mode_def)
    then show ?thesis by simp
  qed
qed



section \<open>Properties of requests\<close>

text \<open>
  One attempt of \<open>_get\<close> whose reply has the code 200 or a code from 400 to 599 (or
  no reply at all): it is retried exactly when the reply is retryable and the time since the
  first request is within the retry timeout, with the first request time passed on
  unchanged and the counter raised by one; otherwise the caller gets what the reply
  surfaces. Other codes are not covered: \<open>raise_for_status\<close> does not raise for them.
\<close>

lemma get_attempt:
  assumes "auth_url rt ctx url params = (Inr (Some u), ctx', params')"
    and "error_or_ok_code (reply a)"
  shows "get rt ctx url params first_request_time retry_counter (a # env) =
     (let t0 = (case first_request_time of None \<Rightarrow> clock_entry a | Some t \<Rightarrow> t);
          evs = attempt_events retry_counter a u (timeout ctx')
      in if retryable (reply a) \<and> \<not> (clock_after a - t0 > retry_timeout ctx')
         then after_events evs (get rt ctx' url params' (Some t0) (retry_counter + 1) env)
         else (Some (surfaced (reply a)), evs, params'))"
proof (cases "reply a")
  case NetworkError
  with assms show ?thesis
    by (simp add: Let_def retryable_def surfaced_def attempt_events_def)
next
  case (Response status_code json)
  show ?thesis
  proof (cases json)
    case None
    with Response assms show ?thesis
      by (auto simp: Let_def retryable_def surfaced_def attempt_events_def
            error_or_ok_code_def raise_for_status_def)
  next
    case (Some b)
    with Response assms show ?thesis
      by (auto simp: Let_def retryable_def surfaced_def attempt_events_def
            error_or_ok_code_def raise_for_status_def split: option.splits)
  qed
qed


lemma api_key_context_url:
  "auth_url rt api_key_context ''/maps/api/geocode/json'' [(''address'', ''Sydney'')]
     = (Inr (Some ''/maps/api/geocode/json?address=Sydney&key=AIzaSyTest''),
        api_key_context, [(''address'', ''Sydney''), (''key'', ''AIzaSyTest'')])"
  by (simp add: auth_url_def api_key_context_def urlencode_def quote_plus_def quote_char_def
        always_safe_def)

lemma api_key_context_url_again:
  "auth_url rt api_key_context ''/maps/api/geocode/json''
        [(''address'', ''Sydney''), (''key'', ''AIzaSyTest'')]
     = (Inr (Some ''/maps/api/geocode/json?address=Sydney&key=AIzaSyTest''),
        api_key_context, [(''address'', ''Sydney''), (''key'', ''AIzaSyTest'')])"
  by (simp add: auth_url_def api_key_context_def urlencode_def quote_plus_def quote_char_def
        always_safe_def)

lemma api_key_context_fields:
  "timeout api_key_context = Single 10" "retry_timeout api_key_context = 60000000"
  by (simp_all add: api_key_context_def)

text \<open>
  C1, at the input where the code departs from it: a reply with the code 203 and the body
  status \<open>OVER_QUERY_LIMIT\<close>, inside the retry timeout. The code is neither 200 nor one
  of 500, 503, 504, yet the call sends a second request after a sleep and returns the
  body of the second reply; no transport error with the code 203 reaches the caller.
\<close>

theorem retry_after_code_203:
  "get Python3 api_key_context ''/maps/api/geocode/json'' [(''address'', ''Sydney'')] None 0
       proxy_env
   = (Some (Inr ok_body),
      [HttpGet ''https://maps.googleapis.com/maps/api/geocode/json?address=Sydney&key=AIzaSyTest''
         (Single 10),
       Sleep (1 / 2),
       HttpGet ''https://maps.googleapis.com/maps/api/geocode/json?address=Sydney&key=AIzaSyTest''
         (Single 10)],
      [(''address'', ''Sydney''), (''key'', ''AIzaSyTest'')])"
  by (simp add: proxy_env_def api_key_context_url api_key_context_url_again
        raise_for_status_def over_limit_body_def ok_body_def after_events_def
        delay_seconds_def api_key_context_fields)




text \<open>
  C6: a reply with the code 200 whose body status is none of \<open>OK\<close>, \<open>ZERO_RESULTS\<close> and
  \<open>OVER_QUERY_LIMIT\<close> makes \<open>_get\<close> raise at once, whatever replies would follow, an
  \<open>ApiError\<close> with the status of the body and its \<open>error_message\<close> when there is one.
  The string form of an \<open>ApiError\<close> is its status alone without a message, and the
  status followed by the message in parentheses with one.
\<close>

theorem fatal_status_raises:
  assumes "auth_url rt ctx url params = (Inr (Some u), ctx', params')"
    and "reply a = Response 200 (Some b)"
    and "body_status b \<noteq> ''OK''" and "body_status b \<noteq> ''ZERO_RESULTS''"
    and "body_status b \<noteq> ''OVER_QUERY_LIMIT''"
  shows "get rt ctx url params first_request_time retry_counter (a # env)
           = (Some (Inl (ApiException (ApiError (body_status b) (error_message b)))),
              attempt_events retry_counter a u (timeout ctx'), params')
         \<and> ApiError_str (ApiError s None) = s
         \<and> ApiError_str (ApiError s (Some m)) = s @ '' ('' @ m @ '')''"
proof -
  from assms(2) have c: "error_or_ok_code (reply a)"
    by (simp add: error_or_ok_code_def)
  from assms(2-5) have r: "\<not> retryable (reply a)"
    and s: "surfaced (reply a) = Inl (ApiException (ApiError (body_status b) (error_message b)))"
    by (auto simp: retryable_def surfaced_def)
  from get_attempt [OF assms(1) c] r s show ?thesis
    by (simp add: Let_def ApiError_str_def)
qed

text \<open>
  C6 at a reply with the status \<open>INVALID_REQUEST\<close> and the message \<open>bad param\<close>.
\<close>

theorem fatal_status_raises_witness:
  "auth_url Python3 api_key_context ''/maps/api/geocode/json'' [(''address'', ''Sydney'')]
     = (Inr (Some ''/maps/api/geocode/json?address=Sydney&key=AIzaSyTest''),
        api_key_context, [(''address'', ''Sydney''), (''key'', ''AIzaSyTest'')])
   \<and> reply invalid_request_attempt = Response 200 (Some invalid_request_body)
   \<and> body_status invalid_request_body = ''INVALID_REQUEST''
   \<and> error_message invalid_request_body = Some ''bad param''
   \<and> get Python3 api_key_context ''/maps/api/geocode/json'' [(''address'', ''Sydney'')]
         None 0 (invalid_request_attempt # proxy_env)
       = (Some (Inl (ApiException (ApiError ''INVALID_REQUEST'' (Some ''bad param'')))),
          [HttpGet ''https://maps.googleapis.com/maps/api/geocode/json?address=Sydney&key=AIzaSyTest''
             (Single 10)],
          [(''address'', ''Sydney''), (''key'', ''AIzaSyTest'')])
   \<and> ApiError_str (ApiError ''INVALID_REQUEST'' (Some ''bad param''))
       = ''INVALID_REQUEST (bad param)''
   \<and> ApiError_str (ApiError ''INVALID_REQUEST'' None) = ''INVALID_REQUEST''"
proof -
  note u = api_key_context_url [of Python3]
  have r: "reply invalid_request_attempt = Response 200 (Some invalid_request_body)"
    by (simp add: invalid_request_attempt_def)
  have b: "body_status invalid_request_body = ''INVALID_REQUEST''"
    and e: "error_message invalid_request_body = Some ''bad param''"
    by (simp_all add: invalid_request_body_def)
  have n: "body_status invalid_request_body \<noteq> ''OK''"
    "body_status invalid_request_body \<noteq> ''ZERO_RESULTS''"
    "body_status invalid_request_body \<noteq> ''OVER_QUERY_LIMIT''"
    by (simp_all add: invalid_request_body_def)
  note f = fatal_status_raises [OF u r n, of None 0 proxy_env "''INVALID_REQUEST''" "''bad param''"]
  from f have g: "get Python3 api_key_context ''/maps/api/geocode/json'' [(''address'', ''Sydney'')]
         None 0 (invalid_request_attempt # proxy_env)
       = (Some (Inl (ApiException (ApiError ''INVALID_REQUEST'' (Some ''bad param'')))),
          [HttpGet ''https://maps.googleapis.com/maps/api/geocode/json?address=Sydney&key=AIzaSyTest''
             (Single 10)],
          [(''address'', ''Sydney''), (''key'', ''AIzaSyTest'')])"
    by (simp add: b e attempt_events_def api_key_context_fields)
  from f have s1: "ApiError_str (ApiError ''INVALID_REQUEST'' (Some ''bad param''))
       = ''INVALID_REQUEST (bad param)''"
    by simp
  from f have s2: "ApiError_str (ApiError ''INVALID_REQUEST'' None) = ''INVALID_REQUEST''"
    by simp
  from u r b e g s1 s2 show ?thesis by (intro conjI)
qed


section \<open>Test vectors\<close>

lemma mask32: "(w :: u32) AND 0xFFFFFFFF = w"
proof -
  have e: "(0xFFFFFFFF :: u32) = - 1" by simp
  show ?thesis unfolding e by (rule and.right_neutral)
qed

lemma expand_numeral:
  "expand (numeral k) ws =
     expand (pred_numeral k) (rotl 1 (ws ! 2 XOR ws ! 7 XOR ws ! 13 XOR ws ! 15) # ws)"
  by (simp add: numeral_eq_Suc)

lemma replicate_numeral_Cons: "replicate (numeral k) x = x # replicate (pred_numeral k) x"
  by (simp add: numeral_eq_Suc)

lemmas sha1_eval = sha1_def sha1_pad_def encode_utf8_def length_bytes_def schedule_def
  expand_numeral rotl_def sha1_init_def sha1_f_def sha1_k_def word_bytes_def
  replicate_numeral_Cons hmac_key_block_def

lemma secret_key: "urlsafe_b64decode ''a2V5'' = Inr [107, 101, 121]"
  by (simp add: urlsafe_b64decode_def is_ascii_def b64_value_def)

lemma fox_inner:
  "sha1 (map (\<lambda>b. b XOR 0x36) (hmac_key_block [107, 101, 121])
         @ encode_utf8 ''The quick brown fox jumps over the lazy dog'')
   = [14, 254, 21, 249, 22, 26, 183, 40, 162, 111, 29, 195, 50, 242, 102, 153, 19, 220, 80, 126]"
  by (simp add: sha1_eval)

lemma fox_outer:
  "sha1 (map (\<lambda>b. b XOR 0x5C) (hmac_key_block [107, 101, 121])
         @ [14, 254, 21, 249, 22, 26, 183, 40, 162, 111, 29, 195, 50, 242, 102, 153, 19, 220, 80, 126])
   = [222, 124, 155, 133, 184, 183, 138, 166, 188, 138, 122, 54, 247, 10, 144, 112, 28, 157, 180, 217]"
  by (simp add: sha1_eval)

lemma fox_hmac:
  "hmac_sha1 [107, 101, 121] (encode_utf8 ''The quick brown fox jumps over the lazy dog'')
   = [222, 124, 155, 133, 184, 183, 138, 166, 188, 138, 122, 54, 247, 10, 144, 112, 28, 157, 180, 217]"
  unfolding hmac_sha1_def Let_def fox_inner fox_outer ..

lemma fox_b64:
  "base64url [222, 124, 155, 133, 184, 183, 138, 166, 188, 138, 122, 54, 247, 10, 144, 112, 28, 157, 180, 217]
   = ''3nybhbi3iqa8ino29wqQcBydtNk=''"
  by (simp add: base64url_def b64encode_def b64_char_def b64_alphabet_def)

text \<open>
  The test vector of HMAC-SHA1 with the key \<open>key\<close> (\<open>a2V5\<close> in base64) and the message
  about the fox, digest \<open>de7c9b85b8b78aa6bc8a7a36f70a90701c9db4d9\<close>.
\<close>

lemma hmac_sign_fixture:
  "hmac_sign Python3 ''a2V5'' ''The quick brown fox jumps over the lazy dog''
   = Inr ''3nybhbi3iqa8ino29wqQcBydtNk=''"
proof -
  have e: "str_encode Python3 ''The quick brown fox jumps over the lazy dog''
             = Inr (encode_utf8 ''The quick brown fox jumps over the lazy dog'')"
    by (simp add: str_encode_def)
  show ?thesis
    by (simp only: hmac_sign_decoded [OF e secret_key] fox_hmac fox_b64)
qed







end
